theory Spec2Isabelle
  imports Main
begin

section \<open>Values, errors and the store\<close>

text \<open>
  The class \<open>Sorcerer\<close> of \<open>dunder_methods.py\<close> (the spec's Caster) is embedded over an
  explicit store. Instances and dictionaries are mutable Python objects that can be shared,
  so both live in a heap and are named by their address: the index in the heap's list.
  Allocation appends to the list; nothing is ever freed.

  A dictionary is an association list with distinct keys in insertion order, as Python's
  \<open>dict\<close> keeps them. Python's unbounded integers are \<open>int\<close>.
\<close>

type_synonym addr = nat

type_synonym pydict = "(string \<times> int) list"

text \<open>
  Python values, as far as the class looks at them: the operand that the numeric methods
  test with \<open>isinstance(other, int)\<close> is an integer or something else, and an attribute
  read returns a string, an integer or a reference to a dictionary.
\<close>

datatype pyval = PInt int | PStr string | PDict addr | PNone

text \<open>
  The exceptions the class raises. \<open>ValueError\<close> carries its message, \<open>KeyError\<close> the
  missing key and \<open>AttributeError\<close> the name of the attribute that was asked for.
\<close>

datatype error = ValueError string | KeyError string | AttributeError string

text \<open>
  An instance holds the four attributes that \<open>__init__\<close> sets, with the types of its
  annotations; \<open>spells\<close> is a reference to a dictionary in the heap. The attributes are
  always there: deleting one (\<open>__delattr__\<close>) and adding a fifth are outside the model, and
  so are comparisons with something that is not a Sorcerer.
\<close>

record sorcerer =
  name :: string
  level :: int
  mana :: int
  spells :: addr

record heap =
  objs :: "sorcerer list"
  dicts :: "pydict list"

definition empty_heap :: heap where
  "empty_heap = \<lparr>objs = [], dicts = []\<rparr>"

subsection \<open>The built-in dictionary\<close>

definition dict_contains :: "pydict \<Rightarrow> string \<Rightarrow> bool" where
  "dict_contains d k = (map_of d k \<noteq> None)"

definition dict_getitem :: "pydict \<Rightarrow> string \<Rightarrow> error + int" where
  "dict_getitem d k = (case map_of d k of None \<Rightarrow> Inl (KeyError k) | Some v \<Rightarrow> Inr v)"

text \<open>Assigning to a present key keeps its position; a new key goes to the end.\<close>

primrec dict_setitem :: "pydict \<Rightarrow> string \<Rightarrow> int \<Rightarrow> pydict" where
  "dict_setitem [] k v = [(k, v)]"
| "dict_setitem (p # ps) k v =
     (if fst p = k then (k, v) # ps else p # dict_setitem ps k v)"

definition dict_delitem :: "pydict \<Rightarrow> string \<Rightarrow> error + pydict" where
  "dict_delitem d k =
     (if dict_contains d k then Inr (filter (\<lambda>p. fst p \<noteq> k) d) else Inl (KeyError k))"

text \<open>\<open>d.copy()\<close> and the literal \<open>{}\<close> allocate a new dictionary.\<close>

definition new_dict :: "heap \<Rightarrow> pydict \<Rightarrow> heap \<times> addr" where
  "new_dict h d = (h\<lparr>dicts := dicts h @ [d]\<rparr>, length (dicts h))"

definition dict_copy :: "heap \<Rightarrow> addr \<Rightarrow> heap \<times> addr" where
  "dict_copy h a = new_dict h (dicts h ! a)"

subsection \<open>Attribute storage of \<open>object\<close>\<close>

text \<open>
  A write of one of the four attributes, with a value of the attribute's type.
  \<open>object_setattr\<close> is \<open>super().__setattr__\<close>: it stores the value and checks nothing.
\<close>

datatype attr_write = SetName string | SetLevel int | SetMana int | SetSpells addr

fun store_attr :: "sorcerer \<Rightarrow> attr_write \<Rightarrow> sorcerer" where
  "store_attr s (SetName v) = s\<lparr>name := v\<rparr>"
| "store_attr s (SetLevel v) = s\<lparr>level := v\<rparr>"
| "store_attr s (SetMana v) = s\<lparr>mana := v\<rparr>"
| "store_attr s (SetSpells v) = s\<lparr>spells := v\<rparr>"

definition object_setattr :: "heap \<Rightarrow> addr \<Rightarrow> attr_write \<Rightarrow> heap" where
  "object_setattr h self w = h\<lparr>objs := (objs h)[self := store_attr (objs h ! self) w]\<rparr>"

text \<open>
  \<open>object_getattribute\<close> is \<open>super().__getattribute__\<close> on the instance's own attributes;
  \<open>None\<close> stands for the \<open>AttributeError\<close> after which Python calls \<open>__getattr__\<close>.
  The methods of the class, which are attributes too, are not part of the model.
\<close>

definition object_getattribute :: "sorcerer \<Rightarrow> string \<Rightarrow> pyval option" where
  "object_getattribute s n =
     (if n = ''name'' then Some (PStr (name s))
      else if n = ''level'' then Some (PInt (level s))
      else if n = ''mana'' then Some (PInt (mana s))
      else if n = ''spells'' then Some (PDict (spells s))
      else None)"

section \<open>The class Sorcerer\<close>

subsection \<open>Object creation and initialisation\<close>

text \<open>
  \<open>__new__\<close> allocates the instance. Its attributes do not exist yet; the placeholder
  values below are all overwritten by \<open>__init__\<close> before the call \<open>Sorcerer(...)\<close> returns.
\<close>

definition blank_instance :: sorcerer where
  "blank_instance = \<lparr>name = [], level = 0, mana = 0, spells = 0\<rparr>"

definition new_instance :: "heap \<Rightarrow> heap \<times> addr" where
  "new_instance h = (h\<lparr>objs := objs h @ [blank_instance]\<rparr>, length (objs h))"

text \<open>
  \<open>spells or {}\<close>: the argument itself when it is a non-empty dictionary, a new empty
  dictionary when it is \<open>None\<close> or empty.
\<close>

definition spells_or_new :: "heap \<Rightarrow> addr option \<Rightarrow> heap \<times> addr" where
  "spells_or_new h sp =
     (case sp of
        None \<Rightarrow> new_dict h []
      | Some d \<Rightarrow> if dicts h ! d \<noteq> [] then (h, d) else new_dict h [])"

text \<open>\<open>__init__\<close> writes the four attributes with \<open>super().__setattr__\<close>.\<close>

definition init :: "heap \<Rightarrow> addr \<Rightarrow> string \<Rightarrow> int \<Rightarrow> int \<Rightarrow> addr option \<Rightarrow> heap" where
  "init h self nm lv ma sp =
     (let h1 = object_setattr h self (SetName nm);
          h2 = object_setattr h1 self (SetLevel lv);
          h3 = object_setattr h2 self (SetMana ma);
          (h4, d) = spells_or_new h3 sp
      in object_setattr h4 self (SetSpells d))"

text \<open>
  The call \<open>Sorcerer(name, level, mana, spells)\<close>: \<open>__new__\<close>, then \<open>__init__\<close>. Neither
  contains a \<open>raise\<close>, so the result is always \<open>Inr\<close>; the sum type is the one of the
  methods that call the constructor.
\<close>

definition Sorcerer :: "heap \<Rightarrow> string \<Rightarrow> int \<Rightarrow> int \<Rightarrow> addr option \<Rightarrow> error + heap \<times> addr" where
  "Sorcerer h nm lv ma sp =
     (let (h0, self) = new_instance h in Inr (init h0 self nm lv ma sp, self))"

subsection \<open>Attribute access\<close>

text \<open>\<open>__getattr__\<close> runs when the normal lookup fails.\<close>

definition getattr :: "heap \<Rightarrow> addr \<Rightarrow> string \<Rightarrow> error + pyval" where
  "getattr h self n =
     (if n = ''num_spells''
      then Inr (PInt (int (length (dicts h ! spells (objs h ! self)))))
      else Inl (AttributeError n))"

text \<open>
  \<open>__getattribute__\<close> redirects \<open>hp\<close> to \<open>mana\<close>; when the lookup fails, Python calls
  \<open>__getattr__\<close> with the name that was asked for.
\<close>

definition getattribute :: "heap \<Rightarrow> addr \<Rightarrow> string \<Rightarrow> error + pyval" where
  "getattribute h self n =
     (let n' = (if n = ''hp'' then ''mana'' else n)
      in case object_getattribute (objs h ! self) n' of
           Some v \<Rightarrow> Inr v
         | None \<Rightarrow> getattr h self n)"

text \<open>\<open>__setattr__\<close> validates \<open>level\<close> and \<open>mana\<close>, then stores.\<close>

fun setattr :: "heap \<Rightarrow> addr \<Rightarrow> attr_write \<Rightarrow> error + heap" where
  "setattr h self (SetLevel v) =
     (if v < 1 then Inl (ValueError ''Sorcerer level must be >= 1'')
      else Inr (object_setattr h self (SetLevel v)))"
| "setattr h self (SetMana v) =
     (if v < 0 then Inl (ValueError ''Mana cannot be negative'')
      else Inr (object_setattr h self (SetMana v)))"
| "setattr h self w = Inr (object_setattr h self w)"

subsection \<open>Comparison, hashing, truth value and length\<close>

definition eq_sorcerer :: "heap \<Rightarrow> addr \<Rightarrow> addr \<Rightarrow> bool" where
  "eq_sorcerer h a b =
     ((name (objs h ! a), level (objs h ! a)) = (name (objs h ! b), level (objs h ! b)))"

text \<open>
  Python's built-in \<open>hash\<close> on a tuple of a string and an integer is not part of the
  repository; it is the parameter \<open>H\<close>.
\<close>

definition hash_sorcerer :: "(string \<times> int \<Rightarrow> int) \<Rightarrow> heap \<Rightarrow> addr \<Rightarrow> int" where
  "hash_sorcerer H h a = H (name (objs h ! a), level (objs h ! a))"

definition bool_sorcerer :: "heap \<Rightarrow> addr \<Rightarrow> bool" where
  "bool_sorcerer h self = (mana (objs h ! self) > 0)"

definition len_sorcerer :: "heap \<Rightarrow> addr \<Rightarrow> nat" where
  "len_sorcerer h self = length (dicts h ! spells (objs h ! self))"

subsection \<open>Container protocol over the spell book\<close>

text \<open>The built-in \<open>d[k] = v\<close> and \<open>del d[k]\<close> on the dictionary at address \<open>a\<close>.\<close>

definition dict_store :: "heap \<Rightarrow> addr \<Rightarrow> string \<Rightarrow> int \<Rightarrow> heap" where
  "dict_store h a k v = h\<lparr>dicts := (dicts h)[a := dict_setitem (dicts h ! a) k v]\<rparr>"

definition dict_remove :: "heap \<Rightarrow> addr \<Rightarrow> string \<Rightarrow> error + heap" where
  "dict_remove h a k =
     (case dict_delitem (dicts h ! a) k of
        Inl e \<Rightarrow> Inl e
      | Inr d \<Rightarrow> Inr (h\<lparr>dicts := (dicts h)[a := d]\<rparr>))"

definition contains :: "heap \<Rightarrow> addr \<Rightarrow> string \<Rightarrow> bool" where
  "contains h self spell_name = dict_contains (dicts h ! spells (objs h ! self)) spell_name"

definition getitem :: "heap \<Rightarrow> addr \<Rightarrow> string \<Rightarrow> error + int" where
  "getitem h self spell_name = dict_getitem (dicts h ! spells (objs h ! self)) spell_name"

definition setitem :: "heap \<Rightarrow> addr \<Rightarrow> string \<Rightarrow> int \<Rightarrow> heap" where
  "setitem h self spell_name spell_level =
     dict_store h (spells (objs h ! self)) spell_name spell_level"

definition delitem :: "heap \<Rightarrow> addr \<Rightarrow> string \<Rightarrow> error + heap" where
  "delitem h self spell_name = dict_remove h (spells (objs h ! self)) spell_name"

subsection \<open>Numeric protocol\<close>

text \<open>
  Each operator evaluates \<open>self.spells.copy()\<close>, which allocates the copy, and then calls
  the constructor with it. The result is the new heap and the address of the new instance.
\<close>

definition add :: "heap \<Rightarrow> addr \<Rightarrow> pyval \<Rightarrow> error + heap \<times> addr" where
  "add h self other =
     (case other of
        PInt n \<Rightarrow>
          (let s = objs h ! self;
               (h1, d) = dict_copy h (spells s)
           in Sorcerer h1 (name s) (level s) (mana s + n) (Some d))
      | _ \<Rightarrow> Inl (ValueError ''Can only add mana to Sorcerer''))"

definition sub :: "heap \<Rightarrow> addr \<Rightarrow> pyval \<Rightarrow> error + heap \<times> addr" where
  "sub h self other =
     (case other of
        PInt n \<Rightarrow>
          (let s = objs h ! self;
               new_mana = max 0 (mana s - n);
               (h1, d) = dict_copy h (spells s)
           in Sorcerer h1 (name s) (level s) new_mana (Some d))
      | _ \<Rightarrow> Inl (ValueError ''Can only subtract mana from Sorcerer''))"

definition mul :: "heap \<Rightarrow> addr \<Rightarrow> pyval \<Rightarrow> error + heap \<times> addr" where
  "mul h self other =
     (case other of
        PInt n \<Rightarrow>
          (let s = objs h ! self;
               (h1, d) = dict_copy h (spells s)
           in Sorcerer h1 (name s) (level s) (mana s * n) (Some d))
      | _ \<Rightarrow> Inl (ValueError ''Can only multiply Sorcerer by int''))"

text \<open>Python's \<open>//\<close> on integers rounds down, as \<open>div\<close> on \<open>int\<close> does.\<close>

definition truediv :: "heap \<Rightarrow> addr \<Rightarrow> pyval \<Rightarrow> error + heap \<times> addr" where
  "truediv h self other =
     (case other of
        PInt n \<Rightarrow>
          (if n = 0 then Inl (ValueError ''Cannot divide by zero'')
           else
             (let s = objs h ! self;
                  (h1, d) = dict_copy h (spells s)
              in Sorcerer h1 (name s) (level s) (mana s div n) (Some d)))
      | _ \<Rightarrow> Inl (ValueError ''Can only divide Sorcerer by int''))"

definition radd :: "heap \<Rightarrow> addr \<Rightarrow> pyval \<Rightarrow> error + heap \<times> addr" where
  "radd h self other = add h self other"

text \<open>
  \<open>self.mana += other\<close> is an attribute assignment, so it goes through \<open>__setattr__\<close>.
  The method returns \<open>self\<close>.
\<close>

definition iadd :: "heap \<Rightarrow> addr \<Rightarrow> pyval \<Rightarrow> error + heap \<times> addr" where
  "iadd h self other =
     (case other of
        PInt n \<Rightarrow>
          (case setattr h self (SetMana (mana (objs h ! self) + n)) of
             Inl e \<Rightarrow> Inl e
           | Inr h' \<Rightarrow> Inr (h', self))
      | _ \<Rightarrow> Inl (ValueError ''Can only add int to Sorcerer''))"

subsection \<open>Callable objects\<close>

text \<open>\<open>str\<close> of an integer, for the f-strings.\<close>

fun str_nat :: "nat \<Rightarrow> string" where
  "str_nat n =
     (if n < 10 then [''0123456789'' ! n]
      else str_nat (n div 10) @ [''0123456789'' ! (n mod 10)])"

definition str_int :: "int \<Rightarrow> string" where
  "str_int i = (if i < 0 then CHR ''-'' # str_nat (nat (- i)) else str_nat (nat i))"

text \<open>The text \<open>'{spell_name}'\<close> of the f-strings: the name between apostrophes.\<close>

definition quoted :: "string \<Rightarrow> string" where
  "quoted s = CHR 0x27 # s @ [CHR 0x27]"

definition unknown_spell_text :: "string \<Rightarrow> string \<Rightarrow> string" where
  "unknown_spell_text nm spell_name =
     nm @ '' doesn't know the spell '' @ quoted spell_name @ ''.''"

definition lacks_mana_text :: "string \<Rightarrow> string \<Rightarrow> string" where
  "lacks_mana_text nm spell_name =
     nm @ '' tries to cast '' @ quoted spell_name @ '' but lacks mana!''"

definition cast_text :: "string \<Rightarrow> string \<Rightarrow> int \<Rightarrow> int \<Rightarrow> string option \<Rightarrow> string" where
  "cast_text nm spell_name cost remaining target =
     (case target of
        None \<Rightarrow>
          nm @ '' casts '' @ quoted spell_name @ '' (cost '' @ str_int cost
            @ '' MP). Remaining mana: '' @ str_int remaining @ ''.''
      | Some t \<Rightarrow>
          nm @ '' casts '' @ quoted spell_name @ '' on '' @ t @ ''! (cost '' @ str_int cost
            @ '' MP, remaining mana: '' @ str_int remaining @ '')'')"

text \<open>
  \<open>__call__\<close>. \<open>self.mana -= cost\<close> is an attribute assignment through \<open>__setattr__\<close>;
  the text is built from the mana read after it.
\<close>

definition call :: "heap \<Rightarrow> addr \<Rightarrow> string \<Rightarrow> string option \<Rightarrow> error + string \<times> heap" where
  "call h self spell_name target =
     (let s = objs h ! self; book = dicts h ! spells s
      in if \<not> dict_contains book spell_name
         then Inr (unknown_spell_text (name s) spell_name, h)
         else
           (case dict_getitem book spell_name of
              Inl e \<Rightarrow> Inl e
            | Inr cost \<Rightarrow>
                if mana s < cost then Inr (lacks_mana_text (name s) spell_name, h)
                else
                  (case setattr h self (SetMana (mana s - cost)) of
                     Inl e \<Rightarrow> Inl e
                   | Inr h' \<Rightarrow>
                       Inr (cast_text (name s) spell_name cost (mana (objs h' ! self)) target,
                            h'))))"

subsection \<open>Example states\<close>

text \<open>
  The instance \<open>Sorcerer("A", 5, 20, {"fireball": 3})\<close> at address 0, its dictionary at
  address 0 of the dictionaries.
\<close>

definition heap_A :: "int \<Rightarrow> heap" where
  "heap_A m =
     \<lparr>objs = [\<lparr>name = ''A'', level = 5, mana = m, spells = 0\<rparr>],
      dicts = [[(''fireball'', 3)]]\<rparr>"

text \<open>A caller's dictionary \<open>m = {"fireball": 3}\<close> at address 0, and no instance yet.\<close>

definition heap_m :: heap where
  "heap_m = \<lparr>objs = [], dicts = [[(''fireball'', 3)]]\<rparr>"

text \<open>An empty dictionary supplied by a caller, at address 0.\<close>

definition heap_e :: heap where
  "heap_e = \<lparr>objs = [], dicts = [[]]\<rparr>"

text \<open>Two instances with the same name and level, different mana and spell books.\<close>

definition heap_twins :: heap where
  "heap_twins =
     \<lparr>objs = [\<lparr>name = ''A'', level = 5, mana = 20, spells = 0\<rparr>,
              \<lparr>name = ''A'', level = 5, mana = 3, spells = 1\<rparr>],
      dicts = [[(''fireball'', 3)], []]\<rparr>"

text \<open>A sample hash of the pair of name and level.\<close>

definition demo_hash :: "string \<times> int \<Rightarrow> int" where
  "demo_hash p = int (length (fst p)) + 31 * snd p"

section \<open>Properties\<close>

subsection \<open>What the constructor returns\<close>

lemma Sorcerer_unfold:
  "Sorcerer h nm lv ma sp =
     Inr (let (h4, d) = spells_or_new h sp
          in h4\<lparr>objs := objs h @ [\<lparr>name = nm, level = lv, mana = ma, spells = d\<rparr>]\<rparr>,
          length (objs h))"
  by (simp add: Sorcerer_def init_def new_instance_def object_setattr_def spells_or_new_def
      new_dict_def blank_instance_def Let_def split: option.splits)

lemma Sorcerer_shared:
  "dicts h ! d \<noteq> [] \<Longrightarrow>
   Sorcerer h nm lv ma (Some d) =
     Inr (h\<lparr>objs := objs h @ [\<lparr>name = nm, level = lv, mana = ma, spells = d\<rparr>]\<rparr>,
          length (objs h))"
  by (simp add: Sorcerer_unfold spells_or_new_def)

lemma Sorcerer_empty:
  "dicts h ! d = [] \<Longrightarrow>
   Sorcerer h nm lv ma (Some d) =
     Inr (\<lparr>objs = objs h @ [\<lparr>name = nm, level = lv, mana = ma, spells = length (dicts h)\<rparr>],
           dicts = dicts h @ [[]]\<rparr>,
          length (objs h))"
  by (simp add: Sorcerer_unfold spells_or_new_def new_dict_def)

lemma Sorcerer_omitted:
  "Sorcerer h nm lv ma None =
     Inr (\<lparr>objs = objs h @ [\<lparr>name = nm, level = lv, mana = ma, spells = length (dicts h)\<rparr>],
           dicts = dicts h @ [[]]\<rparr>,
          length (objs h))"
  by (simp add: Sorcerer_unfold spells_or_new_def new_dict_def)

lemma objs_spells_or_new: "objs (fst (spells_or_new h sp)) = objs h"
  by (simp add: spells_or_new_def new_dict_def split: option.splits)

lemma map_of_dict_setitem: "map_of (dict_setitem d k v) k = Some v"
  by (induction d) auto

subsection \<open>Derived instances and frame lemmas\<close>

lemma Sorcerer_of_copy:
  "\<exists>h'. Sorcerer (fst (dict_copy h a)) nm lv m' (Some (snd (dict_copy h a)))
           = Inr (h', length (objs h)) \<and>
         objs h' = objs h @ [objs h' ! length (objs h)] \<and>
         name (objs h' ! length (objs h)) = nm \<and>
         level (objs h' ! length (objs h)) = lv \<and>
         mana (objs h' ! length (objs h)) = m' \<and>
         length (dicts h) \<le> spells (objs h' ! length (objs h)) \<and>
         spells (objs h' ! length (objs h)) < length (dicts h') \<and>
         dicts h' ! spells (objs h' ! length (objs h)) = dicts h ! a \<and>
         take (length (dicts h)) (dicts h') = dicts h"
proof (cases "dicts h ! a = []")
  case True
  then show ?thesis
    by (simp add: dict_copy_def new_dict_def Sorcerer_empty nth_append)
next
  case False
  then show ?thesis
    by (simp add: dict_copy_def new_dict_def Sorcerer_shared nth_append)
qed

lemma add_unfold:
  "add h c (PInt n) =
     Sorcerer (fst (dict_copy h (spells (objs h ! c)))) (name (objs h ! c)) (level (objs h ! c))
       (mana (objs h ! c) + n) (Some (snd (dict_copy h (spells (objs h ! c)))))"
  by (simp add: add_def Let_def case_prod_beta)

lemma sub_unfold:
  "sub h c (PInt n) =
     Sorcerer (fst (dict_copy h (spells (objs h ! c)))) (name (objs h ! c)) (level (objs h ! c))
       (max 0 (mana (objs h ! c) - n)) (Some (snd (dict_copy h (spells (objs h ! c)))))"
  by (simp add: sub_def Let_def case_prod_beta)

lemma truediv_unfold:
  "n \<noteq> 0 \<Longrightarrow> truediv h c (PInt n) =
     Sorcerer (fst (dict_copy h (spells (objs h ! c)))) (name (objs h ! c)) (level (objs h ! c))
       (mana (objs h ! c) div n) (Some (snd (dict_copy h (spells (objs h ! c)))))"
  by (simp add: truediv_def Let_def case_prod_beta)

lemma getitem_contains: "getitem h c sp = Inr cost \<Longrightarrow> contains h c sp"
  by (simp add: getitem_def contains_def dict_getitem_def dict_contains_def split: option.splits)

lemma name_level_set_mana:
  "name (objs (object_setattr h c (SetMana v)) ! a) = name (objs h ! a) \<and>
   level (objs (object_setattr h c (SetMana v)) ! a) = level (objs h ! a)"
  by (cases "c < length (objs h)")
    (simp_all add: object_setattr_def nth_list_update list_update_beyond)

lemma setattr_mana_Inr:
  "setattr h c (SetMana v) = Inr h' \<Longrightarrow> h' = object_setattr h c (SetMana v)"
  by (simp split: if_splits)

lemma hash_setattr_mana:
  "setattr h c (SetMana v) = Inr h' \<Longrightarrow> hash_sorcerer H h' a = hash_sorcerer H h a"
  by (drule setattr_mana_Inr) (simp add: hash_sorcerer_def name_level_set_mana)

lemma hash_iadd:
  "iadd h c x = Inr (h', c') \<Longrightarrow> hash_sorcerer H h' a = hash_sorcerer H h a"
  by (auto simp add: iadd_def hash_setattr_mana split: pyval.splits sum.splits)

lemma hash_call:
  "call h c sp t = Inr (out, h') \<Longrightarrow> hash_sorcerer H h' a = hash_sorcerer H h a"
  by (auto simp add: call_def Let_def hash_sorcerer_def name_level_set_mana
      split: if_splits sum.splits)

lemma hash_delitem:
  "delitem h c k = Inr h' \<Longrightarrow> hash_sorcerer H h' a = hash_sorcerer H h a"
  by (auto simp add: delitem_def dict_remove_def hash_sorcerer_def split: sum.splits)

subsection \<open>Construction\<close>

text \<open>
  C1, as the spec states it, fails: \<open>Sorcerer("A", 0, 5)\<close> and \<open>Sorcerer("A", 1, -1)\<close>
  both return an instance, with level 0 and with mana -1. \<open>__init__\<close> writes with
  \<open>super().__setattr__\<close>, which goes around the checks of \<open>__setattr__\<close>.
\<close>

theorem constructor_accepts_invalid:
  "Sorcerer empty_heap ''A'' 0 5 None =
     Inr (\<lparr>objs = [\<lparr>name = ''A'', level = 0, mana = 5, spells = 0\<rparr>], dicts = [[]]\<rparr>, 0) \<and>
   Sorcerer empty_heap ''A'' 1 (- 1) None =
     Inr (\<lparr>objs = [\<lparr>name = ''A'', level = 1, mana = - 1, spells = 0\<rparr>], dicts = [[]]\<rparr>, 0) \<and>
   \<not> isl (Sorcerer empty_heap ''A'' 0 5 None) \<and>
   \<not> isl (Sorcerer empty_heap ''A'' 1 (- 1) None)"
  by (simp add: Sorcerer_omitted empty_heap_def)

text \<open>
  C1, amended. For every name, level, mana and spells argument the constructor returns a new
  instance that holds the name, level and mana it was given, unchecked. The checks are those
  of an attribute write after construction: \<open>__setattr__\<close> raises \<open>ValueError\<close> for a
  level below 1 and for a mana below 0, and stores the value otherwise.
\<close>

theorem constructor_stores_unchecked:
  "(\<exists>h'. Sorcerer h nm lv ma sp = Inr (h', length (objs h)) \<and>
         name (objs h' ! length (objs h)) = nm \<and>
         level (objs h' ! length (objs h)) = lv \<and>
         mana (objs h' ! length (objs h)) = ma) \<and>
   (lv < 1 \<longrightarrow> setattr h c (SetLevel lv) = Inl (ValueError ''Sorcerer level must be >= 1'')) \<and>
   (ma < 0 \<longrightarrow> setattr h c (SetMana ma) = Inl (ValueError ''Mana cannot be negative'')) \<and>
   (c < length (objs h) \<and> 1 \<le> lv \<longrightarrow>
      (\<exists>h'. setattr h c (SetLevel lv) = Inr h' \<and> level (objs h' ! c) = lv)) \<and>
   (c < length (objs h) \<and> 0 \<le> ma \<longrightarrow>
      (\<exists>h'. setattr h c (SetMana ma) = Inr h' \<and> mana (objs h' ! c) = ma))"
proof -
  obtain h4 d where sn: "spells_or_new h sp = (h4, d)"
    by (cases "spells_or_new h sp")
  have "objs h4 = objs h"
    using objs_spells_or_new [of h sp] sn by simp
  then have "\<exists>h'. Sorcerer h nm lv ma sp = Inr (h', length (objs h)) \<and>
         name (objs h' ! length (objs h)) = nm \<and>
         level (objs h' ! length (objs h)) = lv \<and>
         mana (objs h' ! length (objs h)) = ma"
    by (simp add: Sorcerer_unfold sn)
  moreover have "lv < 1 \<longrightarrow>
      setattr h c (SetLevel lv) = Inl (ValueError ''Sorcerer level must be >= 1'')"
    by simp
  moreover have "ma < 0 \<longrightarrow>
      setattr h c (SetMana ma) = Inl (ValueError ''Mana cannot be negative'')"
    by simp
  moreover have "c < length (objs h) \<and> 1 \<le> lv \<longrightarrow>
      (\<exists>h'. setattr h c (SetLevel lv) = Inr h' \<and> level (objs h' ! c) = lv)"
    by (simp add: object_setattr_def)
  moreover have "c < length (objs h) \<and> 0 \<le> ma \<longrightarrow>
      (\<exists>h'. setattr h c (SetMana ma) = Inr h' \<and> mana (objs h' ! c) = ma)"
    by (simp add: object_setattr_def)
  ultimately show ?thesis by blast
qed

theorem constructor_stores_unchecked_witness:
  "(\<exists>h'. Sorcerer empty_heap ''A'' 0 (- 1) None = Inr (h', 0) \<and>
         level (objs h' ! 0) = 0 \<and> mana (objs h' ! 0) = - 1) \<and>
   setattr (heap_A 20) 0 (SetLevel 0) = Inl (ValueError ''Sorcerer level must be >= 1'') \<and>
   setattr (heap_A 20) 0 (SetMana (- 1)) = Inl (ValueError ''Mana cannot be negative'')"
  using constructor_stores_unchecked [of empty_heap "''A''" 0 "- 1" None 0]
    constructor_stores_unchecked [of "heap_A 20" "''A''" 0 "- 1" None 0]
  by (auto simp add: empty_heap_def)

text \<open>
  C2, as the spec states it, fails: with the caller's \<open>m = {"fireball": 3}\<close> at address 0,
  \<open>Sorcerer("A", 5, 20, m)\<close> stores the address of \<open>m\<close> itself. A key the caller then sets
  in \<open>m\<close> is read through the instance, and \<open>s["zap"] = 9\<close> on the instance changes \<open>m\<close>.
\<close>

theorem constructor_shares_mapping:
  "Sorcerer heap_m ''A'' 5 20 (Some 0) = Inr (heap_A 20, 0) \<and>
   spells (objs (heap_A 20) ! 0) = 0 \<and>
   getitem (heap_A 20) 0 ''zap'' = Inl (KeyError ''zap'') \<and>
   getitem (dict_store (heap_A 20) 0 ''zap'' 9) 0 ''zap'' = Inr 9 \<and>
   dicts (heap_A 20) ! 0 = [(''fireball'', 3)] \<and>
   dicts (setitem (heap_A 20) 0 ''zap'' 9) ! 0 = [(''fireball'', 3), (''zap'', 9)]"
  by (simp add: Sorcerer_shared heap_m_def heap_A_def getitem_def dict_getitem_def
      dict_store_def setitem_def)

text \<open>
  C2, amended. A supplied dictionary \<open>m\<close> (at address \<open>d\<close>) that is not empty is stored
  itself, not copied: the spell book of the new instance is \<open>m\<close>, so a value the caller
  sets in \<open>m\<close> is read through the instance, and setting or deleting an item of the
  instance sets or deletes it in \<open>m\<close>. A supplied dictionary that is empty is not stored:
  the instance gets a new empty dictionary, which a later write to \<open>m\<close> does not change
  and whose writes do not change \<open>m\<close>.
\<close>

theorem constructor_mapping_sharing:
  assumes "d < length (dicts h)"
  shows "(dicts h ! d \<noteq> [] \<longrightarrow>
           (\<exists>h' c. Sorcerer h nm lv ma (Some d) = Inr (h', c) \<and>
              spells (objs h' ! c) = d \<and> dicts h' = dicts h \<and>
              getitem (dict_store h' d k v) c k = Inr v \<and>
              dicts (setitem h' c k v) ! d = dict_setitem (dicts h ! d) k v \<and>
              delitem h' c k = dict_remove h' d k)) \<and>
         (dicts h ! d = [] \<longrightarrow>
           (\<exists>h' c. Sorcerer h nm lv ma (Some d) = Inr (h', c) \<and>
              spells (objs h' ! c) = length (dicts h) \<and>
              dicts (dict_store h' d k v) ! spells (objs h' ! c) = [] \<and>
              dicts (setitem h' c k v) ! d = []))"
  using assms
  by (simp add: Sorcerer_shared Sorcerer_empty getitem_def dict_getitem_def dict_store_def
      setitem_def delitem_def map_of_dict_setitem nth_append)

theorem constructor_mapping_sharing_witness:
  "(\<exists>h' c. Sorcerer heap_m ''A'' 5 20 (Some 0) = Inr (h', c) \<and>
      spells (objs h' ! c) = 0 \<and>
      getitem (dict_store h' 0 ''zap'' 9) c ''zap'' = Inr 9 \<and>
      dicts (setitem h' c ''zap'' 9) ! 0 = [(''fireball'', 3), (''zap'', 9)]) \<and>
   (\<exists>h' c. Sorcerer heap_e ''A'' 5 20 (Some 0) = Inr (h', c) \<and>
      spells (objs h' ! c) = 1 \<and>
      dicts (dict_store h' 0 ''zap'' 9) ! spells (objs h' ! c) = [] \<and>
      dicts (setitem h' c ''zap'' 9) ! 0 = [])"
  using constructor_mapping_sharing [of 0 heap_m "''A''" 5 20 "''zap''" 9]
    constructor_mapping_sharing [of 0 heap_e "''A''" 5 20 "''zap''" 9]
  by (auto simp add: heap_m_def heap_e_def)

subsection \<open>Numeric protocol\<close>

text \<open>
  C3. The spec asks \<open>add(c, n)\<close> to fail when \<open>c.mana + n\<close> is negative. The code does
  not: for \<open>Sorcerer("A", 5, 3, {"fireball": 3}) + (-10)\<close> it returns a new instance whose
  mana is -7, where the in-place addition of the same operand raises
  \<open>ValueError("Mana cannot be negative")\<close>.
\<close>

theorem add_negative_result:
  "add (heap_A 3) 0 (PInt (- 10)) =
     Inr (\<lparr>objs = [\<lparr>name = ''A'', level = 5, mana = 3, spells = 0\<rparr>,
                   \<lparr>name = ''A'', level = 5, mana = - 7, spells = 1\<rparr>],
           dicts = [[(''fireball'', 3)], [(''fireball'', 3)]]\<rparr>, 1) \<and>
   iadd (heap_A 3) 0 (PInt (- 10)) = Inl (ValueError ''Mana cannot be negative'')"
  by (simp add: add_def iadd_def heap_A_def dict_copy_def new_dict_def Sorcerer_shared)

text \<open>
  C6. For an allocated instance \<open>c\<close> and an integer \<open>n\<close> with \<open>c.mana + n \<ge> 0\<close>,
  \<open>c + n\<close> returns a new instance (an address that was not allocated before) with the name
  and level of \<open>c\<close>, mana \<open>c.mana + n\<close> and a spell book that is a newly allocated
  dictionary with the contents of the one of \<open>c\<close>; every instance and dictionary that
  existed before, \<open>c\<close> among them, is unchanged. \<open>c += n\<close> allocates nothing: it
  returns \<open>c\<close> itself, in a heap that differs only in the mana of \<open>c\<close>.
\<close>

theorem add_new_iadd_in_place:
  assumes "c < length (objs h)" and "0 \<le> mana (objs h ! c) + n"
  shows "(\<exists>h' c'. add h c (PInt n) = Inr (h', c') \<and>
            c' = length (objs h) \<and>
            name (objs h' ! c') = name (objs h ! c) \<and>
            level (objs h' ! c') = level (objs h ! c) \<and>
            mana (objs h' ! c') = mana (objs h ! c) + n \<and>
            length (dicts h) \<le> spells (objs h' ! c') \<and>
            dicts h' ! spells (objs h' ! c') = dicts h ! spells (objs h ! c) \<and>
            take (length (objs h)) (objs h') = objs h \<and>
            take (length (dicts h)) (dicts h') = dicts h \<and>
            objs h' ! c = objs h ! c) \<and>
         iadd h c (PInt n) =
           Inr (h\<lparr>objs := (objs h)[c := (objs h ! c)\<lparr>mana := mana (objs h ! c) + n\<rparr>]\<rparr>, c)"
proof -
  obtain h' where r: "add h c (PInt n) = Inr (h', length (objs h))"
    and o: "objs h' = objs h @ [objs h' ! length (objs h)]"
    and f: "name (objs h' ! length (objs h)) = name (objs h ! c)"
      "level (objs h' ! length (objs h)) = level (objs h ! c)"
      "mana (objs h' ! length (objs h)) = mana (objs h ! c) + n"
      "length (dicts h) \<le> spells (objs h' ! length (objs h))"
      "dicts h' ! spells (objs h' ! length (objs h)) = dicts h ! spells (objs h ! c)"
      "take (length (dicts h)) (dicts h') = dicts h"
    using Sorcerer_of_copy [of h "spells (objs h ! c)" "name (objs h ! c)" "level (objs h ! c)"
        "mana (objs h ! c) + n"]
    unfolding add_unfold by blast
  have t: "take (length (objs h)) (objs h') = objs h"
    by (subst o) simp
  have "objs h' ! c = (objs h @ [objs h' ! length (objs h)]) ! c"
    using o by simp
  then have k: "objs h' ! c = objs h ! c"
    using assms(1) by (simp add: nth_append)
  have i: "iadd h c (PInt n) =
           Inr (h\<lparr>objs := (objs h)[c := (objs h ! c)\<lparr>mana := mana (objs h ! c) + n\<rparr>]\<rparr>, c)"
    using assms(2) by (simp add: iadd_def object_setattr_def)
  show ?thesis
    using r f t k i by blast
qed

theorem add_new_iadd_in_place_witness:
  "(\<exists>h' c'. add (heap_A 20) 0 (PInt 10) = Inr (h', c') \<and> c' = 1 \<and>
      mana (objs h' ! c') = 30 \<and> mana (objs h' ! 0) = 20) \<and>
   iadd (heap_A 20) 0 (PInt 10) = Inr (heap_A 30, 0)"
  using add_new_iadd_in_place [of 0 "heap_A 20" 10]
  by (auto simp add: heap_A_def)

text \<open>
  C7. For every instance \<open>c\<close> and integer \<open>n\<close>, \<open>c - n\<close> does not fail and returns a
  new instance whose mana is \<open>max(0, c.mana - n)\<close>, which is never negative.
\<close>

theorem sub_clamps_at_zero:
  "\<exists>h' c'. sub h c (PInt n) = Inr (h', c') \<and>
      c' = length (objs h) \<and>
      mana (objs h' ! c') = max 0 (mana (objs h ! c) - n) \<and>
      0 \<le> mana (objs h' ! c')"
  using Sorcerer_of_copy [of h "spells (objs h ! c)" "name (objs h ! c)" "level (objs h ! c)"
        "max 0 (mana (objs h ! c) - n)"]
  unfolding sub_unfold by auto

theorem sub_clamps_at_zero_witness:
  "\<exists>h' c'. sub (heap_A 3) 0 (PInt 10) = Inr (h', c') \<and> c' = 1 \<and> mana (objs h' ! c') = 0"
  using sub_clamps_at_zero [of "heap_A 3" 0 10]
  by (auto simp add: heap_A_def)

text \<open>
  C8. For every instance \<open>c\<close> and integer \<open>n \<noteq> 0\<close>, \<open>c / n\<close> returns a new instance
  whose mana is \<open>c.mana\<close> divided by \<open>n\<close>, rounded down; \<open>c / 0\<close> fails with the
  division-by-zero error, which the code raises as \<open>ValueError("Cannot divide by zero")\<close>.
\<close>

theorem truediv_floor_or_error:
  "(n \<noteq> 0 \<longrightarrow>
      (\<exists>h' c'. truediv h c (PInt n) = Inr (h', c') \<and>
         c' = length (objs h) \<and>
         mana (objs h' ! c') = mana (objs h ! c) div n)) \<and>
   truediv h c (PInt 0) = Inl (ValueError ''Cannot divide by zero'')"
proof -
  have "truediv h c (PInt 0) = Inl (ValueError ''Cannot divide by zero'')"
    by (simp add: truediv_def)
  moreover have "\<exists>h' c'. truediv h c (PInt n) = Inr (h', c') \<and>
         c' = length (objs h) \<and>
         mana (objs h' ! c') = mana (objs h ! c) div n" if "n \<noteq> 0"
    using Sorcerer_of_copy [of h "spells (objs h ! c)" "name (objs h ! c)" "level (objs h ! c)"
        "mana (objs h ! c) div n"]
    unfolding truediv_unfold [OF that] by auto
  ultimately show ?thesis by blast
qed

theorem truediv_floor_or_error_witness:
  "(\<exists>h' c'. truediv (heap_A 7) 0 (PInt 2) = Inr (h', c') \<and> c' = 1 \<and> mana (objs h' ! c') = 3) \<and>
   truediv (heap_A 7) 0 (PInt 0) = Inl (ValueError ''Cannot divide by zero'')"
  using truediv_floor_or_error [of 2 "heap_A 7" 0]
  by (auto simp add: heap_A_def)

subsection \<open>Invocation\<close>

text \<open>
  The decimal text of an integer determines the integer, so a text that contains
  \<open>str_int m\<close> at a fixed place tells \<open>m\<close>.
\<close>

lemma digit_inject:
  "a < 10 \<Longrightarrow> b < 10 \<Longrightarrow> ''0123456789'' ! a = ''0123456789'' ! b \<Longrightarrow> a = b"
proof -
  assume "a < 10" "b < 10" "''0123456789'' ! a = ''0123456789'' ! b"
  moreover have "distinct ''0123456789''" by simp
  moreover have "length ''0123456789'' = 10" by simp
  ultimately show "a = b"
    by (metis nth_eq_iff_index_eq)
qed

lemma str_nat_digits: "set (str_nat n) \<subseteq> set ''0123456789''"
proof (induction n rule: str_nat.induct)
  case (1 n)
  have d: "''0123456789'' ! k \<in> set ''0123456789''" if "k < 10" for k
    using that nth_mem [of k "''0123456789''"] by simp
  show ?case
  proof (cases "n < 10")
    case True
    then show ?thesis using d [of n] by (subst str_nat.simps) simp
  next
    case False
    then show ?thesis
      using 1 d [of "n mod 10"] by (subst str_nat.simps) simp
  qed
qed

lemma str_nat_nonempty: "str_nat n \<noteq> []"
  by (subst str_nat.simps) simp

lemma str_nat_inject: "str_nat n = str_nat m \<Longrightarrow> n = m"
proof (induction n arbitrary: m rule: str_nat.induct)
  case (1 n)
  show ?case
  proof (cases "n < 10")
    case True
    then have sn: "str_nat n = [''0123456789'' ! n]"
      by (subst str_nat.simps) simp
    show ?thesis
    proof (cases "m < 10")
      case mt: True
      then have "str_nat m = [''0123456789'' ! m]"
        by (subst str_nat.simps) simp
      with sn "1.prems" True mt show ?thesis
        by (simp add: digit_inject)
    next
      case mf: False
      then have "str_nat m = str_nat (m div 10) @ [''0123456789'' ! (m mod 10)]"
        by (subst str_nat.simps) simp
      with sn "1.prems" str_nat_nonempty [of "m div 10"] show ?thesis
        by (cases "str_nat (m div 10)") simp_all
    qed
  next
    case False
    then have sn: "str_nat n = str_nat (n div 10) @ [''0123456789'' ! (n mod 10)]"
      by (subst str_nat.simps) simp
    show ?thesis
    proof (cases "m < 10")
      case mt: True
      then have "str_nat m = [''0123456789'' ! m]"
        by (subst str_nat.simps) simp
      with sn "1.prems" str_nat_nonempty [of "n div 10"] show ?thesis
        by (cases "str_nat (n div 10)") simp_all
    next
      case mf: False
      then have sm: "str_nat m = str_nat (m div 10) @ [''0123456789'' ! (m mod 10)]"
        by (subst str_nat.simps) simp
      from sn sm "1.prems" have e: "str_nat (n div 10) = str_nat (m div 10)"
        and l: "''0123456789'' ! (n mod 10) = ''0123456789'' ! (m mod 10)"
        by simp_all
      from "1.IH" [OF False e] have q: "n div 10 = m div 10" .
      from l have r: "n mod 10 = m mod 10"
        by (intro digit_inject) simp_all
      show ?thesis
        using q r by (metis div_mult_mod_eq)
    qed
  qed
qed

lemma str_int_inject: "str_int i = str_int j \<Longrightarrow> i = j"
proof -
  assume e: "str_int i = str_int j"
  have nd: "CHR ''-'' # xs \<noteq> str_nat k" for xs k
  proof
    assume "CHR ''-'' # xs = str_nat k"
    then have "CHR ''-'' \<in> set (str_nat k)"
      by (metis list.set_intros(1))
    with str_nat_digits [of k] show False by auto
  qed
  show "i = j"
  proof (cases "i < 0")
    case True
    show ?thesis
    proof (cases "j < 0")
      case jt: True
      with True e have "str_nat (nat (- i)) = str_nat (nat (- j))"
        by (simp add: str_int_def)
      then have "nat (- i) = nat (- j)" by (rule str_nat_inject)
      with True jt show ?thesis by simp
    next
      case jf: False
      with True e nd show ?thesis by (simp add: str_int_def)
    qed
  next
    case False
    show ?thesis
    proof (cases "j < 0")
      case jt: True
      with False e nd [of "str_nat (nat (- j))" "nat i"] show ?thesis
        by (simp add: str_int_def)
    next
      case jf: False
      with False e have "str_nat (nat i) = str_nat (nat j)"
        by (simp add: str_int_def)
      then have "nat i = nat j" by (rule str_nat_inject)
      with False jf show ?thesis by simp
    qed
  qed
qed

text \<open>
  C4. Calling an instance \<open>c\<close> with a spell name has three outcomes. If the name is not
  in the spell book, the result is the text \<open><name> doesn't know the spell '<spell>'.\<close>
  and the heap is unchanged. If it is there with a cost above the mana of \<open>c\<close>, the result
  is the text \<open><name> tries to cast '<spell>' but lacks mana!\<close> and the heap is unchanged.
  Otherwise the mana of \<open>c\<close> goes down by exactly the cost, nothing else changes, and the
  result is the cast text, which spells out the cost and the remaining mana
  \<open>c.mana - cost\<close> in decimal: \<open><name> casts '<spell>' (cost <cost> MP). Remaining mana:
  <remaining>.\<close> without a target, and \<open><name> casts '<spell>' on <target>! (cost <cost> MP,
  remaining mana: <remaining>)\<close> with one.
\<close>

theorem call_three_outcomes:
  "(\<not> contains h c sp \<longrightarrow>
      call h c sp t =
        Inr (name (objs h ! c) @ '' doesn't know the spell '' @ [CHR 0x27] @ sp @ [CHR 0x27]
               @ ''.'',
             h)) \<and>
   (getitem h c sp = Inr cost \<and> mana (objs h ! c) < cost \<longrightarrow>
      call h c sp t =
        Inr (name (objs h ! c) @ '' tries to cast '' @ [CHR 0x27] @ sp @ [CHR 0x27]
               @ '' but lacks mana!'',
             h)) \<and>
   (c < length (objs h) \<and> getitem h c sp = Inr cost \<and> cost \<le> mana (objs h ! c) \<longrightarrow>
      call h c sp t =
        Inr (case t of
               None \<Rightarrow>
                 name (objs h ! c) @ '' casts '' @ [CHR 0x27] @ sp @ [CHR 0x27]
                   @ '' (cost '' @ str_int cost @ '' MP). Remaining mana: ''
                   @ str_int (mana (objs h ! c) - cost) @ ''.''
             | Some tg \<Rightarrow>
                 name (objs h ! c) @ '' casts '' @ [CHR 0x27] @ sp @ [CHR 0x27]
                   @ '' on '' @ tg @ ''! (cost '' @ str_int cost @ '' MP, remaining mana: ''
                   @ str_int (mana (objs h ! c) - cost) @ '')'',
             h\<lparr>objs := (objs h)[c := (objs h ! c)\<lparr>mana := mana (objs h ! c) - cost\<rparr>]\<rparr>))"
proof (intro conjI impI)
  assume "\<not> contains h c sp"
  then show "call h c sp t =
        Inr (name (objs h ! c) @ '' doesn't know the spell '' @ [CHR 0x27] @ sp @ [CHR 0x27]
               @ ''.'',
             h)"
    by (simp add: call_def contains_def Let_def unknown_spell_text_def quoted_def)
next
  assume a: "getitem h c sp = Inr cost \<and> mana (objs h ! c) < cost"
  then have "contains h c sp"
    by (simp add: getitem_contains)
  with a show "call h c sp t =
        Inr (name (objs h ! c) @ '' tries to cast '' @ [CHR 0x27] @ sp @ [CHR 0x27]
               @ '' but lacks mana!'',
             h)"
    by (simp add: call_def contains_def getitem_def Let_def lacks_mana_text_def quoted_def)
next
  assume a: "c < length (objs h) \<and> getitem h c sp = Inr cost \<and> cost \<le> mana (objs h ! c)"
  then have "contains h c sp"
    by (simp add: getitem_contains)
  with a show "call h c sp t =
        Inr (case t of
               None \<Rightarrow>
                 name (objs h ! c) @ '' casts '' @ [CHR 0x27] @ sp @ [CHR 0x27]
                   @ '' (cost '' @ str_int cost @ '' MP). Remaining mana: ''
                   @ str_int (mana (objs h ! c) - cost) @ ''.''
             | Some tg \<Rightarrow>
                 name (objs h ! c) @ '' casts '' @ [CHR 0x27] @ sp @ [CHR 0x27]
                   @ '' on '' @ tg @ ''! (cost '' @ str_int cost @ '' MP, remaining mana: ''
                   @ str_int (mana (objs h ! c) - cost) @ '')'',
             h\<lparr>objs := (objs h)[c := (objs h ! c)\<lparr>mana := mana (objs h ! c) - cost\<rparr>]\<rparr>)"
    by (simp add: call_def contains_def getitem_def Let_def object_setattr_def cast_text_def
        quoted_def split: option.splits)
qed

theorem call_three_outcomes_witness:
  "call (heap_A 20) 0 ''iceball'' None = Inr (''A doesn't know the spell 'iceball'.'', heap_A 20) \<and>
   call (heap_A 1) 0 ''fireball'' None =
     Inr (''A tries to cast 'fireball' but lacks mana!'', heap_A 1) \<and>
   call (heap_A 20) 0 ''fireball'' None =
     Inr (''A casts 'fireball' (cost 3 MP). Remaining mana: 17.'', heap_A 17) \<and>
   call (heap_A 20) 0 ''fireball'' (Some ''goblin'') =
     Inr (''A casts 'fireball' on goblin! (cost 3 MP, remaining mana: 17)'', heap_A 17)"
  using call_three_outcomes [of "heap_A 20" 0 "''iceball''" None 3]
    call_three_outcomes [of "heap_A 1" 0 "''fireball''" None 3]
    call_three_outcomes [of "heap_A 20" 0 "''fireball''" None 3]
    call_three_outcomes [of "heap_A 20" 0 "''fireball''" "Some ''goblin''" 3]
  by (simp add: heap_A_def contains_def getitem_def dict_contains_def dict_getitem_def
      str_int_def)

subsection \<open>Equality and hashing\<close>

text \<open>
  C5. Two instances are equal exactly when their names and their levels are equal; equal
  instances have the same hash; the hash is the built-in hash of the pair of name and level
  and nothing else, so it is the same after a write of mana (by assignment, by \<open>+=\<close> or by
  a cast) and after setting or deleting an item of a spell book.
\<close>

theorem eq_hash_consistent:
  "eq_sorcerer h a b =
     (name (objs h ! a) = name (objs h ! b) \<and> level (objs h ! a) = level (objs h ! b)) \<and>
   (eq_sorcerer h a b \<longrightarrow> hash_sorcerer H h a = hash_sorcerer H h b) \<and>
   hash_sorcerer H h a = H (name (objs h ! a), level (objs h ! a)) \<and>
   (setattr h c (SetMana v) = Inr h1 \<longrightarrow> hash_sorcerer H h1 a = hash_sorcerer H h a) \<and>
   (iadd h c (PInt n) = Inr (h2, c') \<longrightarrow> hash_sorcerer H h2 a = hash_sorcerer H h a) \<and>
   (call h c sp t = Inr (out, h3) \<longrightarrow> hash_sorcerer H h3 a = hash_sorcerer H h a) \<and>
   hash_sorcerer H (setitem h c k w) a = hash_sorcerer H h a \<and>
   (delitem h c k = Inr h4 \<longrightarrow> hash_sorcerer H h4 a = hash_sorcerer H h a)"
proof (intro conjI impI)
  show "eq_sorcerer h a b =
     (name (objs h ! a) = name (objs h ! b) \<and> level (objs h ! a) = level (objs h ! b))"
    by (simp add: eq_sorcerer_def)
  show "hash_sorcerer H h a = hash_sorcerer H h b" if "eq_sorcerer h a b"
    using that by (simp add: eq_sorcerer_def hash_sorcerer_def)
  show "hash_sorcerer H h a = H (name (objs h ! a), level (objs h ! a))"
    by (simp add: hash_sorcerer_def)
  show "hash_sorcerer H h1 a = hash_sorcerer H h a" if "setattr h c (SetMana v) = Inr h1"
    using that by (rule hash_setattr_mana)
  show "hash_sorcerer H h2 a = hash_sorcerer H h a" if "iadd h c (PInt n) = Inr (h2, c')"
    using that by (rule hash_iadd)
  show "hash_sorcerer H h3 a = hash_sorcerer H h a" if "call h c sp t = Inr (out, h3)"
    using that by (rule hash_call)
  show "hash_sorcerer H (setitem h c k w) a = hash_sorcerer H h a"
    by (simp add: hash_sorcerer_def setitem_def dict_store_def)
  show "hash_sorcerer H h4 a = hash_sorcerer H h a" if "delitem h c k = Inr h4"
    using that by (rule hash_delitem)
qed

theorem eq_hash_consistent_witness:
  "eq_sorcerer heap_twins 0 1 \<and>
   hash_sorcerer demo_hash heap_twins 0 = hash_sorcerer demo_hash heap_twins 1 \<and>
   setattr heap_twins 0 (SetMana 7) = Inr (object_setattr heap_twins 0 (SetMana 7)) \<and>
   hash_sorcerer demo_hash (object_setattr heap_twins 0 (SetMana 7)) 0 =
     hash_sorcerer demo_hash heap_twins 0 \<and>
   delitem heap_twins 0 ''fireball'' = Inr (heap_twins\<lparr>dicts := [[], []]\<rparr>) \<and>
   hash_sorcerer demo_hash (heap_twins\<lparr>dicts := [[], []]\<rparr>) 0 =
     hash_sorcerer demo_hash heap_twins 0"
proof -
  have e: "name (objs heap_twins ! 0) = name (objs heap_twins ! 1) \<and>
      level (objs heap_twins ! 0) = level (objs heap_twins ! 1)"
    by (simp add: heap_twins_def)
  have s: "setattr heap_twins 0 (SetMana 7) = Inr (object_setattr heap_twins 0 (SetMana 7))"
    by simp
  have d: "delitem heap_twins 0 ''fireball'' = Inr (heap_twins\<lparr>dicts := [[], []]\<rparr>)"
    by (simp add: delitem_def dict_remove_def dict_delitem_def dict_contains_def heap_twins_def)
  from eq_hash_consistent [where h = heap_twins and a = 0 and b = 1 and H = demo_hash
      and c = 0 and v = 7 and k = "''fireball''"
      and ?h1.0 = "object_setattr heap_twins 0 (SetMana 7)"
      and ?h4.0 = "heap_twins\<lparr>dicts := [[], []]\<rparr>"] e s d
  show ?thesis by blast
qed

subsection \<open>The alias hp\<close>

text \<open>
  C9. In every state, reading \<open>hp\<close> of an instance gives what reading \<open>mana\<close> gives: the
  current mana. In particular, right after a successful write of \<open>mana\<close> on an allocated
  instance, \<open>hp\<close> reads the value written.
\<close>

theorem hp_reads_mana:
  "getattribute h c ''hp'' = getattribute h c ''mana'' \<and>
   getattribute h c ''hp'' = Inr (PInt (mana (objs h ! c))) \<and>
   (c < length (objs h) \<and> setattr h c (SetMana v) = Inr h' \<longrightarrow>
      getattribute h' c ''hp'' = Inr (PInt v))"
  by (auto simp add: getattribute_def object_getattribute_def object_setattr_def
      split: if_splits)

theorem hp_reads_mana_witness:
  "getattribute (heap_A 20) 0 ''hp'' = getattribute (heap_A 20) 0 ''mana'' \<and>
   setattr (heap_A 20) 0 (SetMana 17) = Inr (heap_A 17) \<and>
   getattribute (heap_A 17) 0 ''hp'' = Inr (PInt 17)"
proof -
  have s: "0 < length (objs (heap_A 20)) \<and> setattr (heap_A 20) 0 (SetMana 17) = Inr (heap_A 17)"
    by (simp add: heap_A_def object_setattr_def)
  with hp_reads_mana [of "heap_A 20" 0 17 "heap_A 17"] show ?thesis
    by blast
qed

subsection \<open>Truth value\<close>

text \<open>
  C10. The truth value of a Sorcerer is \<open>mana > 0\<close>: whatever its name, level and spell
  book, it is true exactly when its mana is positive, and a Sorcerer whose mana is exactly
  0 is false.
\<close>

theorem bool_iff_mana_positive:
  "bool_sorcerer h c = (0 < mana (objs h ! c)) \<and>
   (mana (objs h ! c) = 0 \<longrightarrow> \<not> bool_sorcerer h c)"
  by (simp add: bool_sorcerer_def)

theorem bool_iff_mana_positive_witness:
  "bool_sorcerer (heap_A 7) 0 \<and> \<not> bool_sorcerer (heap_A 0) 0"
  using bool_iff_mana_positive [of "heap_A 7" 0] bool_iff_mana_positive [of "heap_A 0" 0]
  by (simp add: heap_A_def)

end
